theory Spec2Isabelle
  imports Main "HOL-Library.AList"
begin

section \<open>Python values and handler outcomes\<close>

text \<open>
  The server in \<^verbatim>\<open>main.py\<close> registers a set of JSON-RPC method handlers. Every handler
  either returns \<^verbatim>\<open>Success(value)\<close>, returns an \<^verbatim>\<open>Error(code, message)\<close> object, or
  lets a Python exception escape (an \<^verbatim>\<open>OSError\<close> carries its error number and the file
  name of the failed call, the \<^verbatim>\<open>RuntimeError\<close> of a symlink loop the path it was raised
  for). The values that travel through the handlers are the
  ones that \<^verbatim>\<open>json.load\<close> produces: \<^verbatim>\<open>None\<close>, booleans, integers, strings, lists and
  dictionaries. JSON numbers with a fraction or an exponent (Python floats) are not part
  of the model. A dictionary is an association list in insertion order whose lookup is
  \<^term>\<open>map_of\<close>; strings are lists of 8-bit characters.
\<close>

datatype json =
    JNull
  | JBool bool
  | JInt int
  | JStr string
  | JArr "json list"
  | JObj "(string \<times> json) list"

datatype errno = ENOENT | ENOTDIR | EISDIR | ELOOP

datatype exn =
    JSONDecodeError
  | AttributeError
  | TypeError
  | KeyError
  | ValueError
  | RecursionError
  | RuntimeError string
  | OSError errno string

datatype outcome =
    Success json
  | Error int string
  | Raised exn

text \<open>Python truthiness, as used by \<^verbatim>\<open>if not x\<close> and \<^verbatim>\<open>x or y\<close>.\<close>

fun truthy :: "json \<Rightarrow> bool" where
  "truthy JNull = False"
| "truthy (JBool b) = b"
| "truthy (JInt i) = (i \<noteq> 0)"
| "truthy (JStr s) = (s \<noteq> [])"
| "truthy (JArr xs) = (xs \<noteq> [])"
| "truthy (JObj kv) = (kv \<noteq> [])"

text \<open>\<^verbatim>\<open>d.get(key, default)\<close> on a value: only a dictionary has the method.\<close>

fun py_get :: "json \<Rightarrow> string \<Rightarrow> json \<Rightarrow> exn + json" where
  "py_get (JObj kv) k d = Inr (case map_of kv k of None \<Rightarrow> d | Some v \<Rightarrow> v)"
| "py_get _ k d = Inl AttributeError"

text \<open>Decimal rendering of integers, for values interpolated into messages.\<close>

fun show_nat :: "nat \<Rightarrow> string" where
  "show_nat n =
     (if n < 10 then [char_of (48 + n)]
      else show_nat (n div 10) @ [char_of (48 + n mod 10)])"

declare show_nat.simps [simp del]

definition show_int :: "int \<Rightarrow> string" where
  "show_int i = (if i < 0 then CHR ''-'' # show_nat (nat (- i)) else show_nat (nat i))"

section \<open>Configuration-backed handlers\<close>

text \<open>
  \<^verbatim>\<open>load_config\<close> yields a dictionary (the empty one when the file is missing or
  unparseable); the three configuration tables are parameters of the handlers that
  read them.
\<close>

type_synonym config = "(string \<times> json) list"

definition capabilities_list_handler :: "config \<Rightarrow> outcome" where
  "capabilities_list_handler resources_config =
     Success (JObj
       [(''resources'',
           JArr ([JStr ''resource://model-context/{model_id}''] @
                 map (\<lambda>resource_type. JStr (''resource://'' @ resource_type @ ''/{resource_id}''))
                     (map fst resources_config))),
        (''tools'',
           JArr [JStr ''tool://web-search'', JStr ''tool://file-read'',
                 JStr ''tool://file-write'', JStr ''tool://file-list'',
                 JStr ''tool://file-delete'']),
        (''prompts'',
           JArr [JStr ''prompt://list'', JStr ''prompt://{prompt_name}''])])"

definition prompt_list_handler :: "config \<Rightarrow> outcome" where
  "prompt_list_handler prompts_config =
     Success (JObj [(''prompts'', JArr (map JStr (map fst prompts_config)))])"


section \<open>The model-context resource\<close>

text \<open>
  A row of the \<^verbatim>\<open>ModelContextDB\<close> table. The store is the list of rows in the order in
  which the query returns them, so \<^verbatim>\<open>.first()\<close> is the first matching element.
  \<^verbatim>\<open>json.loads\<close> belongs to the standard library; the handler takes it as the parameter
  \<open>loads\<close>, with \<^term>\<open>None\<close> standing for \<^verbatim>\<open>json.JSONDecodeError\<close>.
\<close>

record model_context_db =
  id_col :: "int option"
  model_id :: string
  version :: string
  status :: string
  parameters :: string
  metrics :: "string option"

type_synonym decoder = "string \<Rightarrow> json option"

definition resource_model_context_handler ::
  "decoder \<Rightarrow> model_context_db list \<Rightarrow> string \<Rightarrow> outcome" where
  "resource_model_context_handler loads db mid =
     (case find (\<lambda>r. model_id r = mid) db of
        None \<Rightarrow>
          Error (- 32004)
            (''Resource not found: Model ID '' @ [CHR 0x27] @ mid @ [CHR 0x27] @ '' not found.'')
      | Some model_context \<Rightarrow>
          (case loads (parameters model_context) of
             None \<Rightarrow> Raised JSONDecodeError
           | Some ps \<Rightarrow>
               (case metrics model_context of
                  None \<Rightarrow>
                    Success (JObj [(''version'', JStr (version model_context)),
                                   (''status'', JStr (status model_context)),
                                   (''parameters'', ps), (''metrics'', JNull)])
                | Some m \<Rightarrow>
                    if m = [] then
                      Success (JObj [(''version'', JStr (version model_context)),
                                     (''status'', JStr (status model_context)),
                                     (''parameters'', ps), (''metrics'', JNull)])
                    else (case loads m of
                            None \<Rightarrow> Raised JSONDecodeError
                          | Some ms \<Rightarrow>
                              Success (JObj [(''version'', JStr (version model_context)),
                                             (''status'', JStr (status model_context)),
                                             (''parameters'', ps), (''metrics'', ms)])))))"

section \<open>Web search\<close>

text \<open>
  The search handlers read credentials from the process environment and talk to the
  provider through \<^verbatim>\<open>requests.get\<close>. The environment is a map, and the network is the
  parameter \<open>http\<close>: it answers a call either with a \<^verbatim>\<open>requests.RequestException\<close>
  (connection failure, the \<^verbatim>\<open>HTTPError\<close> of \<^verbatim>\<open>raise_for_status\<close>, a body that
  \<^verbatim>\<open>response.json()\<close> rejects) and its message, or with the decoded body. Every handler
  returns, next to its outcome, the list of network calls it made.
\<close>

type_synonym env = "string \<rightharpoonup> string"

record http_call =
  url :: string
  headers :: "(string \<times> string) list"
  params :: "(string \<times> json) list"

datatype http_reply = RequestException string | JsonBody json

type_synonym http = "http_call \<Rightarrow> http_reply"

text \<open>\<^verbatim>\<open>key in v\<close>, \<^verbatim>\<open>v[key]\<close> and iteration over \<^verbatim>\<open>v\<close>, for a string key.\<close>

primrec is_substr :: "string \<Rightarrow> string \<Rightarrow> bool" where
  "is_substr k [] = (k = [])"
| "is_substr k (c # cs) = (take (length k) (c # cs) = k \<or> is_substr k cs)"

fun py_in :: "string \<Rightarrow> json \<Rightarrow> exn + bool" where
  "py_in k (JObj kv) = Inr (map_of kv k \<noteq> None)"
| "py_in k (JArr xs) = Inr (List.member xs (JStr k))"
| "py_in k (JStr s) = Inr (is_substr k s)"
| "py_in k _ = Inl TypeError"

fun py_getitem :: "json \<Rightarrow> string \<Rightarrow> exn + json" where
  "py_getitem (JObj kv) k = (case map_of kv k of None \<Rightarrow> Inl KeyError | Some v \<Rightarrow> Inr v)"
| "py_getitem _ k = Inl TypeError"

fun py_iter :: "json \<Rightarrow> exn + json list" where
  "py_iter (JArr xs) = Inr xs"
| "py_iter (JObj kv) = Inr (map (\<lambda>p. JStr (fst p)) kv)"
| "py_iter (JStr s) = Inr (map (\<lambda>c. JStr [c]) s)"
| "py_iter _ = Inl TypeError"

text \<open>
  The loop body of both providers: three \<^verbatim>\<open>result.get(field, "")\<close> calls build one
  normalised entry; the loop stops at the first element that raises.
\<close>

definition normalise_result :: "string \<Rightarrow> string \<Rightarrow> string \<Rightarrow> json \<Rightarrow> exn + json" where
  "normalise_result title_key url_key snippet_key result =
     (case py_get result title_key (JStr []) of
        Inl e \<Rightarrow> Inl e
      | Inr t \<Rightarrow>
          (case py_get result url_key (JStr []) of
             Inl e \<Rightarrow> Inl e
           | Inr u \<Rightarrow>
               (case py_get result snippet_key (JStr []) of
                  Inl e \<Rightarrow> Inl e
                | Inr s \<Rightarrow> Inr (JObj [(''title'', t), (''url'', u), (''snippet'', s)]))))"

fun process_results :: "(json \<Rightarrow> exn + json) \<Rightarrow> json list \<Rightarrow> exn + json list" where
  "process_results f [] = Inr []"
| "process_results f (r # rs) =
     (case f r of
        Inl e \<Rightarrow> Inl e
      | Inr x \<Rightarrow> (case process_results f rs of Inl e \<Rightarrow> Inl e | Inr xs \<Rightarrow> Inr (x # xs)))"

definition results_outcome :: "exn + json list \<Rightarrow> outcome" where
  "results_outcome r =
     (case r of Inl e \<Rightarrow> Raised e | Inr xs \<Rightarrow> Success (JObj [(''results'', JArr xs)]))"

definition bing_results :: "json \<Rightarrow> outcome" where
  "bing_results search_results =
     (case py_in ''webPages'' search_results of
        Inl e \<Rightarrow> Raised e
      | Inr False \<Rightarrow> results_outcome (Inr [])
      | Inr True \<Rightarrow>
          (case py_getitem search_results ''webPages'' of
             Inl e \<Rightarrow> Raised e
           | Inr web_pages \<Rightarrow>
               (case py_in ''value'' web_pages of
                  Inl e \<Rightarrow> Raised e
                | Inr False \<Rightarrow> results_outcome (Inr [])
                | Inr True \<Rightarrow>
                    (case py_getitem web_pages ''value'' of
                       Inl e \<Rightarrow> Raised e
                     | Inr v \<Rightarrow>
                         (case py_iter v of
                            Inl e \<Rightarrow> Raised e
                          | Inr items \<Rightarrow>
                              results_outcome
                                (process_results
                                   (normalise_result ''name'' ''url'' ''snippet'') items))))))"

definition bing_search_handler :: "env \<Rightarrow> http \<Rightarrow> string \<Rightarrow> outcome \<times> http_call list" where
  "bing_search_handler environ http query =
     (case environ ''BING_API_KEY'' of
        None \<Rightarrow> (Error (- 32001) ''Bing API key not configured.'', [])
      | Some api_key \<Rightarrow>
          if api_key = [] then (Error (- 32001) ''Bing API key not configured.'', [])
          else
            (let call = \<lparr>url = ''https://api.bing.microsoft.com/v7.0/search'',
                         headers = [(''Ocp-Apim-Subscription-Key'', api_key)],
                         params = [(''q'', JStr query), (''count'', JInt 10),
                                   (''offset'', JInt 0), (''mkt'', JStr ''en-US'')]\<rparr>
             in (case http call of
                   RequestException msg \<Rightarrow>
                     (Error (- 32002) (''Error making Bing search request: '' @ msg), [call])
                 | JsonBody search_results \<Rightarrow> (bing_results search_results, [call]))))"

definition google_results :: "json \<Rightarrow> outcome" where
  "google_results search_results =
     (case py_in ''items'' search_results of
        Inl e \<Rightarrow> Raised e
      | Inr False \<Rightarrow> results_outcome (Inr [])
      | Inr True \<Rightarrow>
          (case py_getitem search_results ''items'' of
             Inl e \<Rightarrow> Raised e
           | Inr v \<Rightarrow>
               (case py_iter v of
                  Inl e \<Rightarrow> Raised e
                | Inr items \<Rightarrow>
                    results_outcome
                      (process_results (normalise_result ''title'' ''link'' ''snippet'') items))))"

definition google_search_handler :: "env \<Rightarrow> http \<Rightarrow> string \<Rightarrow> outcome \<times> http_call list" where
  "google_search_handler environ http query =
     (let api_key = (case environ ''GOOGLE_API_KEY'' of None \<Rightarrow> [] | Some k \<Rightarrow> k);
          cx = (case environ ''GOOGLE_CX'' of None \<Rightarrow> [] | Some c \<Rightarrow> c)
      in if api_key = [] \<or> cx = []
         then (Error (- 32001) ''Google API key or CX not configured.'', [])
         else
           (let call = \<lparr>url = ''https://www.googleapis.com/customsearch/v1'',
                        headers = [],
                        params = [(''key'', JStr api_key), (''cx'', JStr cx), (''q'', JStr query)]\<rparr>
            in (case http call of
                  RequestException msg \<Rightarrow>
                    (Error (- 32002) (''Error making Google search request: '' @ msg), [call])
                | JsonBody search_results \<Rightarrow> (google_results search_results, [call]))))"

text \<open>
  \<^verbatim>\<open>api or search_config.get("default", "bing")\<close>: an absent or empty \<open>api\<close> falls back
  to the configured default, which may be any value of the configuration file.
\<close>

definition api_to_use :: "config \<Rightarrow> string option \<Rightarrow> json" where
  "api_to_use search_config api =
     (let dflt = (case map_of search_config ''default'' of None \<Rightarrow> JStr ''bing'' | Some v \<Rightarrow> v)
      in case api of None \<Rightarrow> dflt | Some a \<Rightarrow> if a = [] then dflt else JStr a)"

text \<open>
  The text that an f-string shows for a value that can be a dictionary key; lists and
  dictionaries are unhashable, and looking them up raises \<^verbatim>\<open>TypeError\<close>.
\<close>

fun hashable_str :: "json \<Rightarrow> string option" where
  "hashable_str (JStr s) = Some s"
| "hashable_str JNull = Some ''None''"
| "hashable_str (JBool b) = Some (if b then ''True'' else ''False'')"
| "hashable_str (JInt i) = Some (show_int i)"
| "hashable_str (JArr xs) = None"
| "hashable_str (JObj kv) = None"

text \<open>\<^verbatim>\<open>apis.get(key, {})\<close> on a dictionary with string keys: only a string can match.\<close>

fun lookup_api :: "(string \<times> json) list \<Rightarrow> json \<Rightarrow> json" where
  "lookup_api apis (JStr s) = (case map_of apis s of None \<Rightarrow> JObj [] | Some c \<Rightarrow> c)"
| "lookup_api apis _ = JObj []"

definition tool_web_search_handler ::
  "config \<Rightarrow> env \<Rightarrow> http \<Rightarrow> string \<Rightarrow> string option \<Rightarrow> outcome \<times> http_call list" where
  "tool_web_search_handler search_config environ http query api =
     (let a = api_to_use search_config api
      in case (case map_of search_config ''apis'' of None \<Rightarrow> JObj [] | Some v \<Rightarrow> v) of
           JObj apis \<Rightarrow>
             (case hashable_str a of
                None \<Rightarrow> (Raised TypeError, [])
              | Some name \<Rightarrow>
                  (case py_get (lookup_api apis a) ''enabled'' (JBool False) of
                     Inl e \<Rightarrow> (Raised e, [])
                   | Inr enabled \<Rightarrow>
                       if \<not> truthy enabled then
                         (Error (- 32001)
                            (''Configuration error: '' @ [CHR 0x27] @ name @ [CHR 0x27] @
                             '' API not enabled or misconfigured.''), [])
                       else if a = JStr ''bing'' then bing_search_handler environ http query
                       else if a = JStr ''google'' then google_search_handler environ http query
                       else (Error (- 32001) (''Unsupported search API: '' @ name), [])))
         | _ \<Rightarrow> (Raised AttributeError, []))"

definition initialize_handler :: "env \<Rightarrow> string option \<Rightarrow> outcome" where
  "initialize_handler environ secret_key =
     (case environ ''SECRET_KEY'' of
        None \<Rightarrow> Success (JObj [(''status'', JStr ''initialized'')])
      | Some expected_key \<Rightarrow>
          if expected_key \<noteq> [] \<and> secret_key \<noteq> Some expected_key
          then Error (- 32001) ''Unauthorized: Invalid secret key''
          else Success (JObj [(''status'', JStr ''initialized'')]))"

section \<open>The stdio transport\<close>





section \<open>Paths\<close>

text \<open>
  The file tools work on \<^verbatim>\<open>pathlib.Path("sandbox") / filename\<close>. This section follows
  CPython 3.11 on POSIX: \<^verbatim>\<open>posixpath.join\<close>, \<^verbatim>\<open>split\<close>, \<^verbatim>\<open>normpath\<close> and \<^verbatim>\<open>abspath\<close> on
  strings, and the parsing, printing and comparison of pure paths. A pure path is its
  root (\<^verbatim>\<open>''\<close>, \<^verbatim>\<open>'/'\<close> or \<^verbatim>\<open>'//'\<close>) and its list of parts.
\<close>

fun split_slash :: "string \<Rightarrow> string list" where
  "split_slash [] = [[]]"
| "split_slash (c # cs) =
     (if c = CHR ''/'' then [] # split_slash cs
      else (case split_slash cs of [] \<Rightarrow> [[c]] | x # xs \<Rightarrow> (c # x) # xs))"

fun join_slash :: "string list \<Rightarrow> string" where
  "join_slash [] = []"
| "join_slash [x] = x"
| "join_slash (x # y # ys) = x @ ''/'' @ join_slash (y # ys)"

definition isabs :: "string \<Rightarrow> bool" where
  "isabs s = (take 1 s = ''/'')"

definition posix_join :: "string \<Rightarrow> string \<Rightarrow> string" where
  "posix_join a b =
     (if isabs b then b
      else if a = [] \<or> last a = CHR ''/'' then a @ b
      else a @ ''/'' @ b)"

definition rstrip_slash :: "string \<Rightarrow> string" where
  "rstrip_slash s = rev (dropWhile (\<lambda>c. c = CHR ''/'') (rev s))"

definition posix_split :: "string \<Rightarrow> string \<times> string" where
  "posix_split p =
     (let tail = rev (takeWhile (\<lambda>c. c \<noteq> CHR ''/'') (rev p));
          head = take (length p - length tail) p
      in (if dropWhile (\<lambda>c. c = CHR ''/'') head \<noteq> [] then rstrip_slash head else head, tail))"

text \<open>
  The loop of \<^verbatim>\<open>normpath\<close>; \<open>initial\<close> says whether the path starts with a slash.
\<close>

fun norm_comps :: "bool \<Rightarrow> string list \<Rightarrow> string list \<Rightarrow> string list" where
  "norm_comps initial new_comps [] = new_comps"
| "norm_comps initial new_comps (c # cs) =
     (if c = [] \<or> c = ''.'' then norm_comps initial new_comps cs
      else if c \<noteq> ''..'' \<or> (\<not> initial \<and> new_comps = []) \<or>
              (new_comps \<noteq> [] \<and> last new_comps = ''..'')
      then norm_comps initial (new_comps @ [c]) cs
      else if new_comps \<noteq> [] then norm_comps initial (butlast new_comps) cs
      else norm_comps initial new_comps cs)"

definition initial_slashes :: "string \<Rightarrow> nat" where
  "initial_slashes p =
     (if \<not> isabs p then 0
      else if take 2 p = ''//'' \<and> take 3 p \<noteq> ''///'' then 2
      else 1)"

definition normpath :: "string \<Rightarrow> string" where
  "normpath p =
     (if p = [] then ''.''
      else (let r = replicate (initial_slashes p) CHR ''/'' @
                    join_slash (norm_comps (isabs p) [] (split_slash p))
            in if r = [] then ''.'' else r))"

type_synonym path = "string list"

definition getcwd :: "path \<Rightarrow> string" where
  "getcwd d = CHR ''/'' # join_slash d"

definition abspath :: "path \<Rightarrow> string \<Rightarrow> string" where
  "abspath d p = normpath (if isabs p then p else posix_join (getcwd d) p)"

type_synonym pure_path = "string \<times> string list"

definition splitroot :: "string \<Rightarrow> string \<times> string" where
  "splitroot part =
     (if isabs part then
        (let stripped = dropWhile (\<lambda>c. c = CHR ''/'') part
         in (if length part - length stripped = 2 then ''//'' else ''/'', stripped))
      else ([], part))"

definition parse_parts :: "string \<Rightarrow> pure_path" where
  "parse_parts part =
     (fst (splitroot part),
      filter (\<lambda>x. x \<noteq> [] \<and> x \<noteq> ''.'') (split_slash (snd (splitroot part))))"

text \<open>\<^verbatim>\<open>Path("sandbox")\<close>, the operator \<^verbatim>\<open>/\<close>, \<^verbatim>\<open>str\<close> and \<^verbatim>\<open>is_relative_to\<close>.\<close>

definition sandbox :: pure_path where
  "sandbox = ([], [''sandbox''])"

definition truediv :: "pure_path \<Rightarrow> string \<Rightarrow> pure_path" where
  "truediv p key =
     (if fst (parse_parts key) \<noteq> [] then parse_parts key
      else (fst p, snd p @ snd (parse_parts key)))"

definition path_str :: "pure_path \<Rightarrow> string" where
  "path_str p =
     (if fst p \<noteq> [] then fst p @ join_slash (snd p)
      else if snd p = [] then ''.''
      else join_slash (snd p))"

definition is_relative_to :: "pure_path \<Rightarrow> pure_path \<Rightarrow> bool" where
  "is_relative_to p other =
     (fst p = fst other \<and> take (length (snd other)) (snd p) = snd other)"

section \<open>The file system\<close>

text \<open>
  A file system maps the physical location of an entry (the names from the root down,
  free of symbolic links) to a regular file with its text, a directory, or a symbolic
  link with its target; the root is always a directory. The table is an association
  list, whose order also stands for the order in which \<^verbatim>\<open>os.listdir\<close> reports entries.
  Permissions, name-length limits, hard links and special files are not modelled.

  \<open>walk\<close> is the kernel's path resolution from a directory over the components of a
  path. It either finds an entry, or finds that only the last component is missing from
  an existing directory, or fails. Crossing a symbolic link spends one unit of a budget
  of \<open>max_symlinks\<close>; the link in the last component is crossed only when \<open>follow\<close> is set.
\<close>

datatype node = File string | Dir | Link string

type_synonym nodes = "(path \<times> node) list"

definition node_at :: "nodes \<Rightarrow> path \<Rightarrow> node option" where
  "node_at ns p = (if p = [] then Some Dir else map_of ns p)"

datatype lookup = Found path node | Absent path string | Failed errno

definition max_symlinks :: nat where
  "max_symlinks = 40"

fun walk :: "nodes \<Rightarrow> bool \<Rightarrow> nat \<Rightarrow> path \<Rightarrow> string list \<Rightarrow> lookup" where
  "walk ns follow budget cur [] = Found cur Dir"
| "walk ns follow budget cur (c # cs) =
     (if c = [] \<or> c = ''.'' then walk ns follow budget cur cs
      else if c = ''..'' then walk ns follow budget (butlast cur) cs
      else (case node_at ns (cur @ [c]) of
              None \<Rightarrow> if cs = [] then Absent cur c else Failed ENOENT
            | Some Dir \<Rightarrow> walk ns follow budget (cur @ [c]) cs
            | Some (File text) \<Rightarrow> if cs = [] then Found (cur @ [c]) (File text) else Failed ENOTDIR
            | Some (Link target) \<Rightarrow>
                if cs = [] \<and> \<not> follow then Found (cur @ [c]) (Link target)
                else (case budget of
                        0 \<Rightarrow> Failed ELOOP
                      | Suc b \<Rightarrow>
                          walk ns follow b (if isabs target then [] else cur)
                            (split_slash target @ cs))))"

definition namei :: "nodes \<Rightarrow> path \<Rightarrow> bool \<Rightarrow> string \<Rightarrow> lookup" where
  "namei ns d follow p =
     (if p = [] then Failed ENOENT
      else walk ns follow max_symlinks (if isabs p then [] else d) (split_slash p))"

text \<open>
  The system calls behind the handlers. A path with a NUL character is rejected by the
  interpreter with \<^verbatim>\<open>ValueError\<close> before the kernel sees it. \<^verbatim>\<open>Path.exists\<close> and
  \<^verbatim>\<open>Path.is_file\<close> answer \<^verbatim>\<open>False\<close> on a missing entry, a non-directory on the way, a
  symlink loop, and on \<^verbatim>\<open>ValueError\<close>.
\<close>

definition os_readlink :: "nodes \<Rightarrow> path \<Rightarrow> string \<Rightarrow> string option" where
  "os_readlink ns d p =
     (case namei ns d False p of Found q (Link target) \<Rightarrow> Some target | _ \<Rightarrow> None)"

definition path_exists :: "nodes \<Rightarrow> path \<Rightarrow> string \<Rightarrow> bool" where
  "path_exists ns d p =
     (if CHR 0x00 \<in> set p then False
      else (case namei ns d True p of Found q n \<Rightarrow> True | _ \<Rightarrow> False))"

definition is_file :: "nodes \<Rightarrow> path \<Rightarrow> string \<Rightarrow> bool" where
  "is_file ns d p =
     (if CHR 0x00 \<in> set p then False
      else (case namei ns d True p of Found q (File text) \<Rightarrow> True | _ \<Rightarrow> False))"

definition open_read :: "nodes \<Rightarrow> path \<Rightarrow> string \<Rightarrow> exn + string" where
  "open_read ns d p =
     (if CHR 0x00 \<in> set p then Inl ValueError
      else (case namei ns d True p of
              Found q (File text) \<Rightarrow> Inr text
            | Found q Dir \<Rightarrow> Inl (OSError EISDIR p)
            | Found q (Link target) \<Rightarrow> Inl (OSError ELOOP p)
            | Absent q c \<Rightarrow> Inl (OSError ENOENT p)
            | Failed e \<Rightarrow> Inl (OSError e p)))"

text \<open>
  Mode \<^verbatim>\<open>w\<close> truncates and mode \<^verbatim>\<open>a\<close> appends; both create the file when only the last
  component is missing, also through a dangling symbolic link.
\<close>

definition open_write :: "nodes \<Rightarrow> path \<Rightarrow> string \<Rightarrow> bool \<Rightarrow> string \<Rightarrow> exn + nodes" where
  "open_write ns d p appending content =
     (if CHR 0x00 \<in> set p then Inl ValueError
      else (case namei ns d True p of
              Found q (File text) \<Rightarrow>
                Inr (AList.update q (File (if appending then text @ content else content)) ns)
            | Found q Dir \<Rightarrow> Inl (OSError EISDIR p)
            | Found q (Link target) \<Rightarrow> Inl (OSError ELOOP p)
            | Absent q c \<Rightarrow> Inr (AList.update (q @ [c]) (File content) ns)
            | Failed e \<Rightarrow> Inl (OSError e p)))"

definition unlink :: "nodes \<Rightarrow> path \<Rightarrow> string \<Rightarrow> exn + nodes" where
  "unlink ns d p =
     (if CHR 0x00 \<in> set p then Inl ValueError
      else (case namei ns d False p of
              Found q Dir \<Rightarrow> Inl (OSError EISDIR p)
            | Found q n \<Rightarrow> Inr (AList.delete q ns)
            | Absent q c \<Rightarrow> Inl (OSError ENOENT p)
            | Failed e \<Rightarrow> Inl (OSError e p)))"

definition listdir :: "nodes \<Rightarrow> path \<Rightarrow> string \<Rightarrow> exn + string list" where
  "listdir ns d p =
     (if CHR 0x00 \<in> set p then Inl ValueError
      else (case namei ns d True p of
              Found q Dir \<Rightarrow>
                Inr (map (\<lambda>e. last (fst e)) (filter (\<lambda>e. fst e \<noteq> [] \<and> butlast (fst e) = q) ns))
            | Found q n \<Rightarrow> Inl (OSError ENOTDIR p)
            | Absent q c \<Rightarrow> Inl (OSError ENOENT p)
            | Failed e \<Rightarrow> Inl (OSError e p)))"

section \<open>Path resolution\<close>

text \<open>
  \<^verbatim>\<open>posixpath._joinrealpath\<close> in its non-strict mode. \<open>rl\<close> answers \<^verbatim>\<open>os.lstat\<close> and
  \<^verbatim>\<open>os.readlink\<close>: the target when the path is a symbolic link. \<open>seen\<close> holds the links
  whose resolution is under way (the entries of the function's cache that are still
  \<^verbatim>\<open>None\<close>); meeting one of them again is a loop, and the function gives up with the
  unresolved remainder and the flag \<^verbatim>\<open>False\<close>. Each nested link is a nested call of the
  interpreter, which raises \<^verbatim>\<open>RecursionError\<close> when its stack is exhausted: \<open>depth\<close> is
  the number of nested calls that are left.
\<close>

definition pardir_of :: "string \<Rightarrow> string" where
  "pardir_of path =
     (if path = [] then ''..''
      else if snd (posix_split path) = ''..''
      then posix_join (posix_join (fst (posix_split path)) ''..'') ''..''
      else fst (posix_split path))"

fun joinrealpath ::
  "(string \<Rightarrow> string option) \<Rightarrow> nat \<Rightarrow> string list \<Rightarrow> string \<Rightarrow> string list \<Rightarrow>
     exn + string \<times> bool" where
  "joinrealpath rl depth seen path [] = Inr (path, True)"
| "joinrealpath rl depth seen path (name # rest) =
     (if name = [] \<or> name = ''.'' then joinrealpath rl depth seen path rest
      else if name = ''..'' then joinrealpath rl depth seen (pardir_of path) rest
      else if CHR 0x00 \<in> set (posix_join path name) then Inl ValueError
      else (case rl (posix_join path name) of
              None \<Rightarrow> joinrealpath rl depth seen (posix_join path name) rest
            | Some target \<Rightarrow>
                if posix_join path name \<in> set seen
                then Inr (posix_join (posix_join path name) (join_slash rest), False)
                else (case depth of
                        0 \<Rightarrow> Inl RecursionError
                      | Suc d \<Rightarrow>
                          (case joinrealpath rl d (posix_join path name # seen)
                                  (if isabs target then ''/'' else path)
                                  (split_slash (if isabs target then tl target else target)) of
                             Inl e \<Rightarrow> Inl e
                           | Inr (p, ok) \<Rightarrow>
                               if ok then joinrealpath rl depth seen p rest
                               else Inr (posix_join p (join_slash rest), False)))))"

definition realpath :: "nodes \<Rightarrow> path \<Rightarrow> nat \<Rightarrow> string \<Rightarrow> exn + string" where
  "realpath ns d depth filename =
     (case joinrealpath (os_readlink ns d) depth []
             (if isabs filename then ''/'' else [])
             (split_slash (if isabs filename then tl filename else filename)) of
        Inl e \<Rightarrow> Inl e
      | Inr (p, ok) \<Rightarrow> Inr (abspath d p))"

text \<open>
  \<^verbatim>\<open>Path.resolve()\<close>: the real path, and then a \<^verbatim>\<open>stat\<close> of the result that turns a
  symlink loop into \<^verbatim>\<open>RuntimeError\<close>; any other failure of that \<^verbatim>\<open>stat\<close> is ignored.
\<close>

definition resolve :: "nodes \<Rightarrow> path \<Rightarrow> nat \<Rightarrow> pure_path \<Rightarrow> exn + pure_path" where
  "resolve ns d depth p =
     (case realpath ns d depth (path_str p) of
        Inl e \<Rightarrow> Inl e
      | Inr s \<Rightarrow>
          if CHR 0x00 \<in> set s then Inl ValueError
          else (case namei ns d True s of
                  Failed ELOOP \<Rightarrow> Inl (RuntimeError s)
                | _ \<Rightarrow> Inr (parse_parts s)))"

section \<open>The file tools\<close>

text \<open>
  The state of the world: the working directory of the process, the depth that the
  interpreter's stack leaves to path resolution, the file system, and the list of
  file-system requests that the handlers have issued so far.
\<close>

datatype fs_call =
    Resolve string
  | Exists string
  | Open string string
  | Unlink string
  | Listdir string
  | IsFile string

record world =
  cwd :: path
  depth :: nat
  nodes :: nodes
  calls :: "fs_call list"

definition called :: "fs_call list \<Rightarrow> world \<Rightarrow> world" where
  "called cs w = w\<lparr>calls := calls w @ cs\<rparr>"

text \<open>\<^verbatim>\<open>str(e)\<close> for the exceptions of this section, and \<^verbatim>\<open>repr\<close> of a plain file name.\<close>

definition py_repr :: "string \<Rightarrow> string" where
  "py_repr s = [CHR 0x27] @ s @ [CHR 0x27]"

fun exn_str :: "exn \<Rightarrow> string" where
  "exn_str (OSError ENOENT f) = ''[Errno 2] No such file or directory: '' @ py_repr f"
| "exn_str (OSError ENOTDIR f) = ''[Errno 20] Not a directory: '' @ py_repr f"
| "exn_str (OSError EISDIR f) = ''[Errno 21] Is a directory: '' @ py_repr f"
| "exn_str (OSError ELOOP f) = ''[Errno 40] Too many levels of symbolic links: '' @ py_repr f"
| "exn_str (RuntimeError f) = ''Symlink loop from '' @ py_repr f"
| "exn_str ValueError = ''embedded null byte''"
| "exn_str RecursionError = ''maximum recursion depth exceeded''"
| "exn_str JSONDecodeError = ''Expecting value''"
| "exn_str AttributeError = ''AttributeError''"
| "exn_str TypeError = ''TypeError''"
| "exn_str KeyError = ''KeyError''"

text \<open>
  The guard that opens each of the three handlers below:
  \<^verbatim>\<open>file_path.resolve().is_relative_to(pathlib.Path("sandbox").resolve())\<close>. It resolves
  the requested path first and the sandbox second; either call may raise.
\<close>

definition inside_sandbox :: "pure_path \<Rightarrow> world \<Rightarrow> (exn + bool) \<times> world" where
  "inside_sandbox file_path w =
     (case resolve (nodes w) (cwd w) (depth w) file_path of
        Inl e \<Rightarrow> (Inl e, called [Resolve (path_str file_path)] w)
      | Inr resolved \<Rightarrow>
          (case resolve (nodes w) (cwd w) (depth w) sandbox of
             Inl e \<Rightarrow> (Inl e, called [Resolve (path_str file_path), Resolve (path_str sandbox)] w)
           | Inr root \<Rightarrow>
               (Inr (is_relative_to resolved root),
                called [Resolve (path_str file_path), Resolve (path_str sandbox)] w)))"

definition denied :: outcome where
  "denied = Error (- 32003) ''Operation denied: Path traversal attempt detected.''"

definition not_found :: "string \<Rightarrow> outcome" where
  "not_found filename =
     Error (- 32004) (''File '' @ [CHR 0x27] @ filename @ [CHR 0x27] @ '' not found in sandbox.'')"

definition tool_file_read_handler :: "string \<Rightarrow> world \<Rightarrow> outcome \<times> world" where
  "tool_file_read_handler filename w =
     (let file_path = truediv sandbox filename
      in case inside_sandbox file_path w of
           (Inl e, w1) \<Rightarrow> (Error (- 32002) (''Error reading file: '' @ exn_str e), w1)
         | (Inr inside, w1) \<Rightarrow>
             if \<not> inside then (denied, w1)
             else if \<not> path_exists (nodes w1) (cwd w1) (path_str file_path)
             then (not_found filename, called [Exists (path_str file_path)] w1)
             else (case open_read (nodes w1) (cwd w1) (path_str file_path) of
                     Inl e \<Rightarrow>
                       (Error (- 32002) (''Error reading file: '' @ exn_str e),
                        called [Exists (path_str file_path), Open (path_str file_path) ''r''] w1)
                   | Inr content \<Rightarrow>
                       (Success (JObj [(''content'', JStr content)]),
                        called [Exists (path_str file_path), Open (path_str file_path) ''r''] w1)))"

definition tool_file_write_handler :: "string \<Rightarrow> string \<Rightarrow> bool \<Rightarrow> world \<Rightarrow> outcome \<times> world" where
  "tool_file_write_handler filename content appending w =
     (let file_path = truediv sandbox filename
      in case inside_sandbox file_path w of
           (Inl e, w1) \<Rightarrow> (Error (- 32002) (''Error writing file: '' @ exn_str e), w1)
         | (Inr inside, w1) \<Rightarrow>
             if \<not> inside then (denied, w1)
             else (case open_write (nodes w1) (cwd w1) (path_str file_path) appending content of
                     Inl e \<Rightarrow>
                       (Error (- 32002) (''Error writing file: '' @ exn_str e),
                        called [Open (path_str file_path) (if appending then ''a'' else ''w'')] w1)
                   | Inr ns \<Rightarrow>
                       (Success (JObj [(''message'',
                          JStr (''Successfully '' @ (if appending then ''appended to'' else ''wrote'') @
                                '' '' @ [CHR 0x27] @ filename @ [CHR 0x27] @ '' in sandbox.''))]),
                        called [Open (path_str file_path) (if appending then ''a'' else ''w'')]
                          (w1\<lparr>nodes := ns\<rparr>))))"

definition tool_file_list_handler :: "world \<Rightarrow> outcome \<times> world" where
  "tool_file_list_handler w =
     (case listdir (nodes w) (cwd w) (path_str sandbox) of
        Inl e \<Rightarrow>
          (Error (- 32002) (''Error listing files: '' @ exn_str e),
           called [Listdir (path_str sandbox)] w)
      | Inr names \<Rightarrow>
          (Success (JObj [(''files'',
             JArr (map JStr
               (filter (\<lambda>name. is_file (nodes w) (cwd w) (path_str sandbox @ ''/'' @ name)) names)))]),
           called (Listdir (path_str sandbox) #
                   map (\<lambda>name. IsFile (path_str sandbox @ ''/'' @ name)) names) w))"

definition tool_file_delete_handler :: "string \<Rightarrow> world \<Rightarrow> outcome \<times> world" where
  "tool_file_delete_handler filename w =
     (let file_path = truediv sandbox filename
      in case inside_sandbox file_path w of
           (Inl e, w1) \<Rightarrow> (Error (- 32002) (''Error deleting file: '' @ exn_str e), w1)
         | (Inr inside, w1) \<Rightarrow>
             if \<not> inside then (denied, w1)
             else if \<not> path_exists (nodes w1) (cwd w1) (path_str file_path)
             then (not_found filename, called [Exists (path_str file_path)] w1)
             else (case unlink (nodes w1) (cwd w1) (path_str file_path) of
                     Inl e \<Rightarrow>
                       (Error (- 32002) (''Error deleting file: '' @ exn_str e),
                        called [Exists (path_str file_path), Unlink (path_str file_path)] w1)
                   | Inr ns \<Rightarrow>
                       (Success (JObj [(''message'',
                          JStr (''Successfully deleted '' @ [CHR 0x27] @ filename @ [CHR 0x27] @
                                '' from sandbox.''))]),
                        called [Exists (path_str file_path), Unlink (path_str file_path)]
                          (w1\<lparr>nodes := ns\<rparr>))))"

text \<open>
  Well-formed file systems: every name on the way to an entry is a proper file name.
\<close>

definition proper_name :: "string \<Rightarrow> bool" where
  "proper_name n = (n \<noteq> [] \<and> n \<noteq> ''.'' \<and> n \<noteq> ''..'' \<and> CHR ''/'' \<notin> set n)"

definition wf_nodes :: "nodes \<Rightarrow> bool" where
  "wf_nodes ns = list_all (\<lambda>e. list_all proper_name (fst e)) ns"

section \<open>Lines of the input stream\<close>


section \<open>A decoder for concrete examples\<close>

text \<open>
  The handlers above are stated for an arbitrary decoder. For the evaluation of concrete
  examples, \<open>json_loads\<close> is a recursive-descent decoder that follows \<^verbatim>\<open>json.loads\<close> on
  the following fragment of JSON: white space, \<^verbatim>\<open>null\<close>, \<^verbatim>\<open>true\<close>, \<^verbatim>\<open>false\<close>, integers,
  strings without backslash escapes, arrays and objects (a repeated key keeps its first
  position and its last value, as in a Python dictionary). Text outside the fragment is
  rejected. The fuel bounds the number of nested calls; the length of the text is enough.
\<close>

definition is_ws :: "char \<Rightarrow> bool" where
  "is_ws c = (c = CHR '' '' \<or> c = CHR 0x09 \<or> c = CHR 0x0A \<or> c = CHR 0x0D)"

definition skip_ws :: "string \<Rightarrow> string" where
  "skip_ws s = dropWhile is_ws s"

definition is_digit :: "char \<Rightarrow> bool" where
  "is_digit c = (48 \<le> (of_char c :: nat) \<and> (of_char c :: nat) \<le> 57)"

fun scan_string :: "string \<Rightarrow> (string \<times> string) option" where
  "scan_string [] = None"
| "scan_string (c # cs) =
     (if c = CHR 0x22 then Some ([], cs)
      else if c = CHR 0x5C \<or> of_char c < (32::nat) then None
      else map_option (\<lambda>(s, r). (c # s, r)) (scan_string cs))"

definition digits_value :: "string \<Rightarrow> int" where
  "digits_value ds = foldl (\<lambda>a c. 10 * a + (of_char c - 48)) 0 ds"

definition scan_nat :: "string \<Rightarrow> (int \<times> string) option" where
  "scan_nat s =
     (case s of
        [] \<Rightarrow> None
      | c # cs \<Rightarrow>
          if c = CHR ''0'' then Some (0, cs)
          else if is_digit c then Some (digits_value (takeWhile is_digit s), dropWhile is_digit s)
          else None)"

definition scan_int :: "string \<Rightarrow> (json \<times> string) option" where
  "scan_int s =
     (case s of
        [] \<Rightarrow> None
      | c # cs \<Rightarrow>
          if c = CHR ''-'' then map_option (\<lambda>(n, r). (JInt (- n), r)) (scan_nat cs)
          else map_option (\<lambda>(n, r). (JInt n, r)) (scan_nat s))"

definition dict_of_pairs :: "(string \<times> json) list \<Rightarrow> (string \<times> json) list" where
  "dict_of_pairs ps = foldl (\<lambda>d (k, v). AList.update k v d) [] ps"

fun scan_value :: "nat \<Rightarrow> string \<Rightarrow> (json \<times> string) option"
  and scan_array :: "nat \<Rightarrow> json list \<Rightarrow> string \<Rightarrow> (json \<times> string) option"
  and scan_object :: "nat \<Rightarrow> (string \<times> json) list \<Rightarrow> string \<Rightarrow> (json \<times> string) option"
where
  "scan_value 0 s = None"
| "scan_value (Suc n) s =
     (if take 4 s = ''null'' then Some (JNull, drop 4 s)
      else if take 4 s = ''true'' then Some (JBool True, drop 4 s)
      else if take 5 s = ''false'' then Some (JBool False, drop 5 s)
      else (case s of
              [] \<Rightarrow> None
            | c # cs \<Rightarrow>
                if c = CHR 0x22 then map_option (\<lambda>(x, r). (JStr x, r)) (scan_string cs)
                else if c = CHR ''['' then
                  (case skip_ws cs of
                     [] \<Rightarrow> None
                   | d # ds \<Rightarrow> if d = CHR '']'' then Some (JArr [], ds) else scan_array n [] (d # ds))
                else if c = CHR ''{'' then
                  (case skip_ws cs of
                     [] \<Rightarrow> None
                   | d # ds \<Rightarrow>
                       if d = CHR ''}'' then Some (JObj [], ds) else scan_object n [] (d # ds))
                else scan_int s))"
| "scan_array 0 acc s = None"
| "scan_array (Suc n) acc s =
     (case scan_value n s of
        None \<Rightarrow> None
      | Some (v, r) \<Rightarrow>
          (case skip_ws r of
             [] \<Rightarrow> None
           | d # ds \<Rightarrow>
               if d = CHR '']'' then Some (JArr (acc @ [v]), ds)
               else if d = CHR '','' then scan_array n (acc @ [v]) (skip_ws ds)
               else None))"
| "scan_object 0 acc s = None"
| "scan_object (Suc n) acc s =
     (case s of
        [] \<Rightarrow> None
      | q # cs \<Rightarrow>
          if q \<noteq> CHR 0x22 then None
          else (case scan_string cs of
                  None \<Rightarrow> None
                | Some (k, r) \<Rightarrow>
                    (case skip_ws r of
                       [] \<Rightarrow> None
                     | d # ds \<Rightarrow>
                         if d \<noteq> CHR '':'' then None
                         else (case scan_value n (skip_ws ds) of
                                 None \<Rightarrow> None
                               | Some (v, r') \<Rightarrow>
                                   (case skip_ws r' of
                                      [] \<Rightarrow> None
                                    | e # es \<Rightarrow>
                                        if e = CHR ''}'' then
                                          Some (JObj (dict_of_pairs (acc @ [(k, v)])), es)
                                        else if e = CHR '','' then
                                          scan_object n (acc @ [(k, v)]) (skip_ws es)
                                        else None)))))"

definition json_loads :: "string \<Rightarrow> json option" where
  "json_loads s =
     (case scan_value (Suc (length s)) (skip_ws s) of
        None \<Rightarrow> None
      | Some (v, r) \<Rightarrow> if skip_ws r = [] then Some v else None)"

section \<open>Evaluation of the sample decoder\<close>

lemmas json_eval = json_loads_def skip_ws_def is_ws_def scan_int_def scan_nat_def is_digit_def
  digits_value_def dict_of_pairs_def

section \<open>Capabilities and prompts\<close>

text \<open>
  Claim C6. Whatever the resource configuration holds, \<^verbatim>\<open>capabilities/list\<close> succeeds;
  its tools are exactly the five fixed tool URIs, and its resources are the fixed
  model-context template followed by one template per configured resource type, in
  configuration order.
\<close>

theorem capabilities_list_tools_and_resources:
  "capabilities_list_handler resources_config =
     Success (JObj
       [(''resources'',
           JArr (JStr ''resource://model-context/{model_id}'' #
                 map (\<lambda>t. JStr (''resource://'' @ t @ ''/{resource_id}'')) (map fst resources_config))),
        (''tools'',
           JArr [JStr ''tool://web-search'', JStr ''tool://file-read'',
                 JStr ''tool://file-write'', JStr ''tool://file-list'',
                 JStr ''tool://file-delete'']),
        (''prompts'', JArr [JStr ''prompt://list'', JStr ''prompt://{prompt_name}''])])"
  by (simp add: capabilities_list_handler_def)



section \<open>The model-context resource\<close>

lemma find_first_match:
  "\<forall>x \<in> set pre. \<not> P x \<Longrightarrow> P r \<Longrightarrow> find P (pre @ r # post) = Some r"
  by (induction pre) auto

lemma find_no_match: "\<forall>x \<in> set xs. \<not> P x \<Longrightarrow> find P xs = None"
  by (induction xs) auto

text \<open>
  Claim C8. \<^verbatim>\<open>resource/model-context\<close> answers from the first row whose \<^verbatim>\<open>model_id\<close>
  matches. Without a matching row the result is the not-found error \<open>-32004\<close>. With a
  matching row whose parameters decode, absent metrics give a success whose
  \<^verbatim>\<open>metrics\<close> field is null, and stored metrics are decoded like the parameters.
\<close>

theorem model_context_first_match:
  "((\<forall>x \<in> set db. model_id x \<noteq> mid) \<longrightarrow>
      resource_model_context_handler loads db mid =
        Error (- 32004)
          (''Resource not found: Model ID '' @ [CHR 0x27] @ mid @ [CHR 0x27] @ '' not found.'')) \<and>
   ((\<forall>x \<in> set pre. model_id x \<noteq> mid) \<and> model_id r = mid \<and>
    loads (parameters r) = Some ps \<and> metrics r = None \<longrightarrow>
      resource_model_context_handler loads (pre @ r # post) mid =
        Success (JObj [(''version'', JStr (version r)), (''status'', JStr (status r)),
                       (''parameters'', ps), (''metrics'', JNull)])) \<and>
   ((\<forall>x \<in> set pre. model_id x \<noteq> mid) \<and> model_id r = mid \<and>
    loads (parameters r) = Some ps \<and> metrics r = Some m \<and> m \<noteq> [] \<and> loads m = Some ms \<longrightarrow>
      resource_model_context_handler loads (pre @ r # post) mid =
        Success (JObj [(''version'', JStr (version r)), (''status'', JStr (status r)),
                       (''parameters'', ps), (''metrics'', ms)]))"
proof (intro conjI impI)
  assume "\<forall>x \<in> set db. model_id x \<noteq> mid"
  then have "find (\<lambda>r. model_id r = mid) db = None"
    by (intro find_no_match) simp
  then show "resource_model_context_handler loads db mid =
      Error (- 32004)
        (''Resource not found: Model ID '' @ [CHR 0x27] @ mid @ [CHR 0x27] @ '' not found.'')"
    by (simp add: resource_model_context_handler_def)
next
  assume h: "(\<forall>x \<in> set pre. model_id x \<noteq> mid) \<and> model_id r = mid \<and>
    loads (parameters r) = Some ps \<and> metrics r = None"
  then have "find (\<lambda>r. model_id r = mid) (pre @ r # post) = Some r"
    by (intro find_first_match) simp_all
  with h show "resource_model_context_handler loads (pre @ r # post) mid =
        Success (JObj [(''version'', JStr (version r)), (''status'', JStr (status r)),
                       (''parameters'', ps), (''metrics'', JNull)])"
    by (simp add: resource_model_context_handler_def)
next
  assume h: "(\<forall>x \<in> set pre. model_id x \<noteq> mid) \<and> model_id r = mid \<and>
    loads (parameters r) = Some ps \<and> metrics r = Some m \<and> m \<noteq> [] \<and> loads m = Some ms"
  then have "find (\<lambda>r. model_id r = mid) (pre @ r # post) = Some r"
    by (intro find_first_match) simp_all
  with h show "resource_model_context_handler loads (pre @ r # post) mid =
        Success (JObj [(''version'', JStr (version r)), (''status'', JStr (status r)),
                       (''parameters'', ps), (''metrics'', ms)])"
    by (simp add: resource_model_context_handler_def)
qed

theorem model_context_first_match_witness:
  "resource_model_context_handler json_loads [] ''missing'' =
     Error (- 32004) ''Resource not found: Model ID 'missing' not found.'' \<and>
   resource_model_context_handler json_loads
     [\<lparr>id_col = Some 0, model_id = ''m0'', version = ''7'', status = ''ready'',
         parameters = ''[1, 2]'', metrics = Some ''{}''\<rparr>,
      \<lparr>id_col = Some 1, model_id = ''m1'', version = ''1'', status = ''ready'',
         parameters = ''{}'', metrics = None\<rparr>,
      \<lparr>id_col = Some 2, model_id = ''m1'', version = ''2'', status = ''stale'',
         parameters = ''[1, 2]'', metrics = Some ''[3]''\<rparr>] ''m1'' =
     Success (JObj [(''version'', JStr ''1''), (''status'', JStr ''ready''),
                    (''parameters'', JObj []), (''metrics'', JNull)]) \<and>
   resource_model_context_handler json_loads
     [\<lparr>id_col = Some 0, model_id = ''m0'', version = ''7'', status = ''ready'',
         parameters = ''[1, 2]'', metrics = Some ''{}''\<rparr>,
      \<lparr>id_col = Some 1, model_id = ''m1'', version = ''1'', status = ''ready'',
         parameters = ''{}'', metrics = None\<rparr>] ''m0'' =
     Success (JObj [(''version'', JStr ''7''), (''status'', JStr ''ready''),
                    (''parameters'', JArr [JInt 1, JInt 2]), (''metrics'', JObj [])])"
proof -
  let ?m0 = "\<lparr>id_col = Some 0, model_id = ''m0'', version = ''7'', status = ''ready'',
         parameters = ''[1, 2]'', metrics = Some ''{}''\<rparr>"
  let ?m1 = "\<lparr>id_col = Some 1, model_id = ''m1'', version = ''1'', status = ''ready'',
         parameters = ''{}'', metrics = None\<rparr>"
  let ?m2 = "\<lparr>id_col = Some 2, model_id = ''m1'', version = ''2'', status = ''stale'',
         parameters = ''[1, 2]'', metrics = Some ''[3]''\<rparr>"
  have p1: "json_loads ''{}'' = Some (JObj [])" by (simp add: json_eval)
  have p2: "json_loads ''[1, 2]'' = Some (JArr [JInt 1, JInt 2])" by (simp add: json_eval)
  note T = model_context_first_match
  have a: "resource_model_context_handler json_loads [] ''missing'' =
     Error (- 32004) ''Resource not found: Model ID 'missing' not found.''"
    using T [where db = "[]" and mid = "''missing''" and loads = json_loads] by simp
  have b: "resource_model_context_handler json_loads ([?m0] @ ?m1 # [?m2]) ''m1'' =
     Success (JObj [(''version'', JStr ''1''), (''status'', JStr ''ready''),
                    (''parameters'', JObj []), (''metrics'', JNull)])"
    using T [where loads = json_loads and pre = "[?m0]" and mid = "''m1''" and r = ?m1
        and ps = "JObj []" and post = "[?m2]"] p1 by simp
  have c: "resource_model_context_handler json_loads ([] @ ?m0 # [?m1]) ''m0'' =
     Success (JObj [(''version'', JStr ''7''), (''status'', JStr ''ready''),
                    (''parameters'', JArr [JInt 1, JInt 2]), (''metrics'', JObj [])])"
    using T [where loads = json_loads and pre = "[]" and mid = "''m0''" and r = ?m0
        and ps = "JArr [JInt 1, JInt 2]" and m = "''{}''" and ms = "JObj []" and post = "[?m1]"]
      p1 p2
    by simp
  from a b c show ?thesis by simp
qed

text \<open>
  Claim C3 asks that no handler lets an exception escape, in particular
  \<^verbatim>\<open>resource/model-context\<close> on a row whose parameters are not valid JSON. The handler
  calls \<^verbatim>\<open>json.loads\<close> outside any \<^verbatim>\<open>try\<close>: on such a row the decoder's exception
  leaves the handler, where the file tools catch every exception and answer \<open>-32002\<close>.
\<close>

theorem model_context_invalid_parameters_raises:
  "resource_model_context_handler json_loads
     [\<lparr>id_col = Some 1, model_id = ''m1'', version = ''1'', status = ''ready'',
        parameters = ''{'', metrics = None\<rparr>] ''m1'' = Raised JSONDecodeError"
  by (simp add: resource_model_context_handler_def json_eval)

section \<open>Web search\<close>

text \<open>
  Claim C7. Let the \<^verbatim>\<open>apis\<close> table of the search configuration be absent or a
  dictionary, and let the provider in use (the requested one, or the configured default)
  be a name. If the name is absent from the table, or present with \<^verbatim>\<open>enabled\<close> false,
  the answer is the configuration error \<open>-32001\<close> and no network call is made. If the
  name is enabled but neither \<^verbatim>\<open>bing\<close> nor \<^verbatim>\<open>google\<close>, the answer is the configuration
  error for an unsupported provider, again without a network call.
\<close>

theorem web_search_disabled_or_unsupported:
  assumes apis: "map_of search_config ''apis'' = None \<and> apis = [] \<or>
                 map_of search_config ''apis'' = Some (JObj apis)"
    and name: "api_to_use search_config api = JStr name"
  shows "(map_of apis name = None \<or>
          (\<exists>c. map_of apis name = Some (JObj c) \<and> map_of c ''enabled'' = Some (JBool False)) \<longrightarrow>
            tool_web_search_handler search_config environ http query api =
              (Error (- 32001)
                 (''Configuration error: '' @ [CHR 0x27] @ name @ [CHR 0x27] @
                  '' API not enabled or misconfigured.''), [])) \<and>
         ((\<exists>c v. map_of apis name = Some (JObj c) \<and> map_of c ''enabled'' = Some v \<and> truthy v) \<and>
          name \<noteq> ''bing'' \<and> name \<noteq> ''google'' \<longrightarrow>
            tool_web_search_handler search_config environ http query api =
              (Error (- 32001) (''Unsupported search API: '' @ name), []))"
proof -
  have get_apis: "(case map_of search_config ''apis'' of None \<Rightarrow> JObj [] | Some v \<Rightarrow> v) = JObj apis"
    using apis by auto
  show ?thesis
    unfolding tool_web_search_handler_def Let_def get_apis name
    by (auto simp: name)
qed

theorem web_search_disabled_or_unsupported_witness:
  "tool_web_search_handler
     [(''default'', JStr ''duck''),
      (''apis'', JObj [(''bing'', JObj [(''enabled'', JBool False)]),
                      (''duck'', JObj [(''enabled'', JBool True)])])]
     Map.empty (\<lambda>c. JsonBody JNull) ''isabelle'' (Some ''bing'') =
     (Error (- 32001) ''Configuration error: 'bing' API not enabled or misconfigured.'', []) \<and>
   tool_web_search_handler
     [(''default'', JStr ''duck''),
      (''apis'', JObj [(''bing'', JObj [(''enabled'', JBool False)]),
                      (''duck'', JObj [(''enabled'', JBool True)])])]
     Map.empty (\<lambda>c. JsonBody JNull) ''isabelle'' (Some ''google'') =
     (Error (- 32001) ''Configuration error: 'google' API not enabled or misconfigured.'', []) \<and>
   tool_web_search_handler
     [(''default'', JStr ''duck''),
      (''apis'', JObj [(''bing'', JObj [(''enabled'', JBool False)]),
                      (''duck'', JObj [(''enabled'', JBool True)])])]
     Map.empty (\<lambda>c. JsonBody JNull) ''isabelle'' None =
     (Error (- 32001) ''Unsupported search API: duck'', []) \<and>
   tool_web_search_handler [] Map.empty (\<lambda>c. JsonBody JNull) ''isabelle'' None =
     (Error (- 32001) ''Configuration error: 'bing' API not enabled or misconfigured.'', [])"
proof -
  let ?apis = "[(''bing'', JObj [(''enabled'', JBool False)]),
                (''duck'', JObj [(''enabled'', JBool True)])]"
  let ?cfg = "[(''default'', JStr ''duck''), (''apis'', JObj ?apis)]"
  note T = web_search_disabled_or_unsupported
  have a: "tool_web_search_handler ?cfg Map.empty (\<lambda>c. JsonBody JNull) ''isabelle'' (Some ''bing'') =
     (Error (- 32001) ''Configuration error: 'bing' API not enabled or misconfigured.'', [])"
    using T [where search_config = ?cfg and apis = ?apis and api = "Some ''bing''"
        and name = "''bing''" and environ = Map.empty and http = "\<lambda>c. JsonBody JNull"
        and query = "''isabelle''"]
    by (simp add: api_to_use_def)
  have b: "tool_web_search_handler ?cfg Map.empty (\<lambda>c. JsonBody JNull) ''isabelle'' (Some ''google'') =
     (Error (- 32001) ''Configuration error: 'google' API not enabled or misconfigured.'', [])"
    using T [where search_config = ?cfg and apis = ?apis and api = "Some ''google''"
        and name = "''google''" and environ = Map.empty and http = "\<lambda>c. JsonBody JNull"
        and query = "''isabelle''"]
    by (simp add: api_to_use_def)
  have c: "tool_web_search_handler ?cfg Map.empty (\<lambda>c. JsonBody JNull) ''isabelle'' None =
     (Error (- 32001) ''Unsupported search API: duck'', [])"
    using T [where search_config = ?cfg and apis = ?apis and api = None
        and name = "''duck''" and environ = Map.empty and http = "\<lambda>c. JsonBody JNull"
        and query = "''isabelle''"]
    by (simp add: api_to_use_def)
  have d: "tool_web_search_handler [] Map.empty (\<lambda>c. JsonBody JNull) ''isabelle'' None =
     (Error (- 32001) ''Configuration error: 'bing' API not enabled or misconfigured.'', [])"
    using T [where search_config = "[]" and apis = "[]" and api = None
        and name = "''bing''" and environ = Map.empty and http = "\<lambda>c. JsonBody JNull"
        and query = "''isabelle''"]
    by (simp add: api_to_use_def)
  from a b c d show ?thesis by simp
qed

section \<open>The stdio transport\<close>








end
